theory Spec2Isabelle
  imports Complex_Main "HOL-Library.AList"
begin

section \<open>Python values, exceptions and text\<close>

text \<open>
  The three scripts are Python. An exception that leaves a function is a value of
  \<open>error\<close>; \<open>SystemExit n\<close> is the exit argparse performs on a rejected command line.
  A character is a code point below 256, so the whitespace of \<open>str.isspace\<close>, of the
  regular expression class \<open>\s\<close> and of \<open>str.strip\<close> is the set \<open>is_space\<close> below.
\<close>

datatype error =
    RuntimeError
  | KeyError
  | AttributeError
  | ValueError
  | ZeroDivisionError
  | OverflowError
  | TypeError
  | SystemExit int

datatype pyval = PyNone | PyStr string | PyInt int

definition is_space :: "char \<Rightarrow> bool" where
  "is_space c =
     (let n = (of_char c :: nat)
      in (9 \<le> n \<and> n \<le> 13) \<or> (28 \<le> n \<and> n \<le> 32) \<or> n = 133 \<or> n = 160)"

text \<open>\<open>s.strip()\<close>: leading and trailing whitespace removed.\<close>

definition strip :: "string \<Rightarrow> string" where
  "strip s = rev (dropWhile is_space (rev (dropWhile is_space s)))"

text \<open>\<open>s.split(sep)[0]\<close> for a one-character separator: the text before its first occurrence.\<close>

definition split_first :: "char \<Rightarrow> string \<Rightarrow> string" where
  "split_first sep s = takeWhile (\<lambda>c. c \<noteq> sep) s"

text \<open>\<open>str(n)\<close> and the f-string rendering \<open>{n}\<close> of an integer.\<close>

definition digit_char :: "nat \<Rightarrow> char" where
  "digit_char d = char_of (48 + d)"

fun str_nat :: "nat \<Rightarrow> string" where
  "str_nat n = (if n < 10 then [digit_char n] else str_nat (n div 10) @ [digit_char (n mod 10)])"

definition str_int :: "int \<Rightarrow> string" where
  "str_int i = (if i < 0 then CHR ''-'' # str_nat (nat (- i)) else str_nat (nat i))"

text \<open>
  \<open>int(s)\<close> in base 10: whitespace around the literal is dropped (for \<open>int\<close> the
  separators 28 to 31 are not whitespace), one sign is allowed, and the digits may be
  grouped by single underscores. Anything else raises ValueError. The interpreter's
  limit on the number of digits of a literal is not modelled.
\<close>

definition is_digit :: "char \<Rightarrow> bool" where
  "is_digit c = (let n = (of_char c :: nat) in 48 \<le> n \<and> n \<le> 57)"

definition int_space :: "char \<Rightarrow> bool" where
  "int_space c =
     (let n = (of_char c :: nat)
      in (9 \<le> n \<and> n \<le> 13) \<or> n = 32 \<or> n = 133 \<or> n = 160)"

fun digits_ok :: "string \<Rightarrow> bool" where
  "digits_ok [] = False"
| "digits_ok [c] = is_digit c"
| "digits_ok (c # d # cs) =
     (is_digit c \<and> (if d = CHR ''_'' then digits_ok cs else digits_ok (d # cs)))"

fun digits_value :: "nat \<Rightarrow> string \<Rightarrow> nat" where
  "digits_value acc [] = acc"
| "digits_value acc (c # cs) =
     (if c = CHR ''_'' then digits_value acc cs
      else digits_value (10 * acc + (of_char c - 48)) cs)"

definition py_int :: "string \<Rightarrow> error + int" where
  "py_int s =
     (let t = rev (dropWhile int_space (rev (dropWhile int_space s)));
          neg = (t \<noteq> [] \<and> hd t = CHR ''-'');
          d = (if t \<noteq> [] \<and> (hd t = CHR ''-'' \<or> hd t = CHR ''+'') then tl t else t)
      in if digits_ok d
         then Inr (if neg then - int (digits_value 0 d) else int (digits_value 0 d))
         else Inl ValueError)"

text \<open>
  \<open>a / b\<close> on integers (true division): ZeroDivisionError for a zero divisor, and
  OverflowError when the quotient rounds to a double beyond the largest finite one,
  that is when its magnitude reaches \<open>2^1024 - 2^970\<close>. The float that results is
  represented by the exact quotient; its rounding is not modelled.
\<close>

definition true_div :: "int \<Rightarrow> int \<Rightarrow> error + rat" where
  "true_div a b =
     (if b = 0 then Inl ZeroDivisionError
      else if (2 ^ 1024 - 2 ^ 970) * \<bar>b\<bar> \<le> \<bar>a\<bar> then Inl OverflowError
      else Inr (of_int a / of_int b))"

text \<open>\<open>os.path.join(a, b)\<close> for a relative \<open>b\<close>, and \<open>Path(d) / name\<close> rendered as text.\<close>

definition os_path_join :: "string \<Rightarrow> string \<Rightarrow> string" where
  "os_path_join a b =
     (if a = [] then b else if last a = CHR ''/'' then a @ b else a @ ''/'' @ b)"

definition path_div :: "string \<Rightarrow> string \<Rightarrow> string" where
  "path_div d name = d @ ''/'' @ name"

section \<open>The statistics scanner: \<open>parse_stat\<close>\<close>

text \<open>
  Both drivers build the pattern \<open>^<name>\s+(\S+)\<close> with \<open>re.escape\<close> on the name and
  hand it to \<open>re.search\<close> with \<open>re.MULTILINE\<close>. \<open>strip_prefix\<close> is the escaped name matched
  literally; \<open>match_here\<close> is the pattern tried at one position (the greedy \<open>\s+\<close> takes
  the whole run of whitespace, and giving some back would leave \<open>\S+\<close> on a whitespace
  character, so no other match exists at that position); \<open>search_from\<close> is the scan of
  \<open>re.search\<close> from left to right, where \<open>^\<close> holds at the start of the text and after
  each line feed.
\<close>

fun strip_prefix :: "string \<Rightarrow> string \<Rightarrow> string option" where
  "strip_prefix [] s = Some s"
| "strip_prefix (p # ps) [] = None"
| "strip_prefix (p # ps) (c # cs) = (if p = c then strip_prefix ps cs else None)"

definition match_here :: "string \<Rightarrow> string \<Rightarrow> string option" where
  "match_here name s =
     (case strip_prefix name s of
        None \<Rightarrow> None
      | Some r \<Rightarrow>
          (let ws = takeWhile is_space r;
               g = takeWhile (\<lambda>c. \<not> is_space c) (dropWhile is_space r)
           in if ws = [] \<or> g = [] then None else Some g))"

fun search_from :: "bool \<Rightarrow> string \<Rightarrow> string \<Rightarrow> string option" where
  "search_from bol name [] = (if bol then match_here name [] else None)"
| "search_from bol name (c # cs) =
     (case (if bol then match_here name (c # cs) else None) of
        Some g \<Rightarrow> Some g
      | None \<Rightarrow> search_from (c = CHR 0x0A) name cs)"

definition re_search :: "string \<Rightarrow> string \<Rightarrow> string option" where
  "re_search stat_name stats_content = search_from True stat_name stats_content"

text \<open>\<open>parse_stat\<close> of run\_experiments.py: the text \<open>N/A\<close> when nothing matches.\<close>

definition parse_stat_re :: "string \<Rightarrow> string \<Rightarrow> pyval" where
  "parse_stat_re stats_content stat_name =
     (case re_search stat_name stats_content of
        Some g \<Rightarrow> PyStr (strip (split_first (CHR ''#'') g))
      | None \<Rightarrow> PyStr ''N/A'')"

text \<open>\<open>parse_stat\<close> of classify\_misses.py: \<open>None\<close> when nothing matches.\<close>

definition parse_stat_cm :: "string \<Rightarrow> string \<Rightarrow> pyval" where
  "parse_stat_cm stats_content stat_name =
     (case re_search stat_name stats_content of
        Some g \<Rightarrow> PyStr (strip (split_first (CHR ''#'') g))
      | None \<Rightarrow> PyNone)"

section \<open>What a driver sees of its environment\<close>

text \<open>
  \<open>subprocess_run w cmd\<close> is \<open>subprocess.run(cmd, ...)\<close> for a child that starts and
  terminates: its exit status and its captured standard error. With \<open>check=True\<close> a
  nonzero status raises CalledProcessError. \<open>stats_txt w d\<close> is the content of
  \<open>d/stats.txt\<close> at the moment the driver looks for it, \<open>None\<close> when there is no such
  file. Creating directories and writing the CSV file are taken to succeed.
\<close>

record world =
  subprocess_run :: "string list \<Rightarrow> int \<times> string"
  stats_txt :: "string \<Rightarrow> string option"

text \<open>
  The module constants both drivers compute on import. \<open>GEM5_PATH_of\<close> is the guard on
  the environment variable; \<open>install\<close> holds its value and the directory of the script.
\<close>

definition GEM5_PATH_of :: "string option \<Rightarrow> error + string" where
  "GEM5_PATH_of environ_GEM5 =
     (case environ_GEM5 of
        None \<Rightarrow> Inl RuntimeError
      | Some p \<Rightarrow> if p = [] then Inl RuntimeError else Inr p)"

record install =
  GEM5_PATH :: string
  SCRIPT_DIR :: string

definition GEM5_BINARY :: "install \<Rightarrow> string" where
  "GEM5_BINARY i = os_path_join (GEM5_PATH i) ''build/X86/gem5.opt''"

definition ASSIGNMENT_SCRIPT :: "install \<Rightarrow> string" where
  "ASSIGNMENT_SCRIPT i = path_div (SCRIPT_DIR i) ''assignment3.py''"

text \<open>
  What a driver does that can be observed, in order. The messages hold characters
  outside the 8-bit range, so a printed line is an event named after its content.
\<close>

datatype event =
    Mkdir string
  | Announce string
  | Spawn "string list"
  | Exited int
  | Completed
  | FailedWith string
  | Skipping
  | StatsNotFound string
  | ReadStats string
  | MissesExtracted int
  | MissesFailed
  | MetricsExtracted
  | MetricsFailed
  | ResultsWritten nat
  | NoResults
  | Heading
  | TotalLine int
  | ColdLine int rat
  | CapacityLine int rat
  | ConflictLine int rat
  | SumLine int
  | VerificationPassed
  | SumMismatch
  | CsvWritten
  | NotAllCompleted

text \<open>
  How a run of \<open>main\<close> ends: what it printed and started, the results it collected,
  the CSV file it wrote (\<open>None\<close>: no file was opened) and the exception that ended it,
  if one did.
\<close>

record ('r, 'c) outcome =
  results :: 'r
  trace :: "event list"
  csv :: "'c list list option"
  raised :: "error option"

section \<open>classify\_misses.py\<close>

type_synonym config_cm = "string \<times> string \<times> int \<times> string"

definition CONFIGS_cm :: "config_cm list" where
  "CONFIGS_cm =
     [(''baseline'', ''1kB'', 2, ''Total misses (cold + capacity + conflict)''),
      (''no_conflict'', ''1kB'', 8, ''Cold + capacity misses (no conflict)''),
      (''no_capacity'', ''8kB'', 8, ''Cold misses only (no capacity, no conflict)'')]"

definition CLOCK_FREQ_cm :: string where "CLOCK_FREQ_cm = ''1GHz''"
definition PROGRAM_cm :: string where "PROGRAM_cm = ''queens''"
definition BP_TYPE_cm :: string where "BP_TYPE_cm = ''LocalBP''"
definition BP_SIZE_cm :: int where "BP_SIZE_cm = 2048"
definition BP_BITS_cm :: int where "BP_BITS_cm = 2"

definition cmd_cm :: "install \<Rightarrow> string \<Rightarrow> int \<Rightarrow> string \<Rightarrow> string list" where
  "cmd_cm i l1d_size l1d_assoc output_dir =
     [GEM5_BINARY i,
      ''--outdir='' @ output_dir,
      ASSIGNMENT_SCRIPT i,
      ''--prog='' @ PROGRAM_cm,
      ''--bp='' @ BP_TYPE_cm,
      ''--bp_size='' @ str_int BP_SIZE_cm,
      ''--bp_bits='' @ str_int BP_BITS_cm,
      ''--l1d_size='' @ l1d_size,
      ''--l1d_assoc='' @ str_int l1d_assoc,
      ''--clock_freq='' @ CLOCK_FREQ_cm]"

definition run_gem5_simulation_cm ::
  "install \<Rightarrow> world \<Rightarrow> string \<Rightarrow> string \<Rightarrow> int \<Rightarrow> string \<Rightarrow> bool \<times> event list" where
  "run_gem5_simulation_cm i w name l1d_size l1d_assoc output_dir =
     (let cmd = cmd_cm i l1d_size l1d_assoc output_dir;
          (returncode, stderr) = subprocess_run w cmd
      in if returncode = 0
         then (True, [Announce output_dir, Spawn cmd, Exited returncode, Completed])
         else (False, [Announce output_dir, Spawn cmd, Exited returncode, FailedWith stderr]))"

definition L1D_MISSES :: string where
  "L1D_MISSES = ''board.cache_hierarchy.ruby_system.l1_controllers.L1Dcache.m_demand_misses''"

text \<open>\<open>if l1d_misses:\<close> is the truth value of the object \<open>parse_stat\<close> returned.\<close>

definition truthy :: "pyval \<Rightarrow> bool" where
  "truthy v = (case v of PyNone \<Rightarrow> False | PyStr s \<Rightarrow> s \<noteq> [] | PyInt n \<Rightarrow> n \<noteq> 0)"

definition to_int :: "pyval \<Rightarrow> error + int" where
  "to_int v = (case v of PyNone \<Rightarrow> Inl TypeError | PyStr s \<Rightarrow> py_int s | PyInt n \<Rightarrow> Inr n)"

definition extract_l1d_misses :: "world \<Rightarrow> string \<Rightarrow> (error + int option) \<times> event list" where
  "extract_l1d_misses w output_dir =
     (case stats_txt w output_dir of
        None \<Rightarrow> (Inr None, [StatsNotFound output_dir])
      | Some stats_content \<Rightarrow>
          (let l1d_misses = parse_stat_cm stats_content L1D_MISSES
           in if truthy l1d_misses
              then (case to_int l1d_misses of
                      Inl e \<Rightarrow> (Inl e, [ReadStats output_dir])
                    | Inr n \<Rightarrow> (Inr (Some n), [ReadStats output_dir]))
              else (Inr None, [ReadStats output_dir])))"

record entry =
  e_l1d_size :: string
  e_l1d_assoc :: int
  e_misses :: int
  e_purpose :: string

record cm_state =
  cm_results :: "(string \<times> entry) list"
  cm_trace :: "event list"
  cm_raised :: "error option"

definition output_dir_cm :: "install \<Rightarrow> config_cm \<Rightarrow> string" where
  "output_dir_cm i c =
     (case c of (name, l1d_size, l1d_assoc, purpose) \<Rightarrow>
        path_div (SCRIPT_DIR i) (''miss_classify_'' @ name))"

text \<open>One pass of the loop of \<open>main\<close> (lines 114 to 137).\<close>

definition step_cm :: "install \<Rightarrow> world \<Rightarrow> config_cm \<Rightarrow> cm_state \<Rightarrow> cm_state" where
  "step_cm i w c st =
     (case c of (name, l1d_size, l1d_assoc, purpose) \<Rightarrow>
        (let output_dir = output_dir_cm i c;
             (success, ev) = run_gem5_simulation_cm i w name l1d_size l1d_assoc output_dir
         in if \<not> success
            then st\<lparr>cm_trace := cm_trace st @ [Mkdir output_dir] @ ev @ [Skipping]\<rparr>
            else (case extract_l1d_misses w output_dir of
                    (Inl e, ev') \<Rightarrow>
                      st\<lparr>cm_trace := cm_trace st @ [Mkdir output_dir] @ ev @ ev',
                         cm_raised := Some e\<rparr>
                  | (Inr None, ev') \<Rightarrow>
                      st\<lparr>cm_trace := cm_trace st @ [Mkdir output_dir] @ ev @ ev' @ [MissesFailed]\<rparr>
                  | (Inr (Some misses), ev') \<Rightarrow>
                      st\<lparr>cm_results :=
                           AList.update name
                             \<lparr>e_l1d_size = l1d_size, e_l1d_assoc = l1d_assoc,
                              e_misses = misses, e_purpose = purpose\<rparr>
                             (cm_results st),
                         cm_trace := cm_trace st @ [Mkdir output_dir] @ ev @ ev'
                                       @ [MissesExtracted misses]\<rparr>)))"

text \<open>The loop: an exception raised in one pass ends it.\<close>

fun loop_cm :: "install \<Rightarrow> world \<Rightarrow> config_cm list \<Rightarrow> cm_state \<Rightarrow> cm_state" where
  "loop_cm i w [] st = st"
| "loop_cm i w (c # cs) st =
     (let st' = step_cm i w c st
      in if cm_raised st' = None then loop_cm i w cs st' else st')"

text \<open>The classification (lines 145 to 150).\<close>

record breakdown =
  total_misses :: int
  cold_capacity_misses :: int
  cold_misses :: int
  capacity_misses :: int
  conflict_misses :: int

definition miss_breakdown :: "int \<Rightarrow> int \<Rightarrow> int \<Rightarrow> breakdown" where
  "miss_breakdown total_m cold_capacity_m cold_m =
     \<lparr>total_misses = total_m,
      cold_capacity_misses = cold_capacity_m,
      cold_misses = cold_m,
      capacity_misses = cold_capacity_m - cold_m,
      conflict_misses = total_m - cold_capacity_m\<rparr>"

text \<open>
  The printed breakdown and the verification (lines 152 to 165). Each percentage is a
  true division by the total, so each of the three lines can raise before it prints.
\<close>

definition reported_sum :: "breakdown \<Rightarrow> int" where
  "reported_sum b = cold_misses b + capacity_misses b + conflict_misses b"

definition verification :: "breakdown \<Rightarrow> event" where
  "verification b =
     (if cold_misses b + capacity_misses b + conflict_misses b = total_misses b
      then VerificationPassed else SumMismatch)"

definition report :: "breakdown \<Rightarrow> event list \<times> error option" where
  "report b =
     (case true_div (100 * cold_misses b) (total_misses b) of
        Inl e \<Rightarrow> ([TotalLine (total_misses b)], Some e)
      | Inr p1 \<Rightarrow>
     (case true_div (100 * capacity_misses b) (total_misses b) of
        Inl e \<Rightarrow> ([TotalLine (total_misses b), ColdLine (cold_misses b) p1], Some e)
      | Inr p2 \<Rightarrow>
     (case true_div (100 * conflict_misses b) (total_misses b) of
        Inl e \<Rightarrow>
          ([TotalLine (total_misses b), ColdLine (cold_misses b) p1,
            CapacityLine (capacity_misses b) p2], Some e)
      | Inr p3 \<Rightarrow>
          ([TotalLine (total_misses b), ColdLine (cold_misses b) p1,
            CapacityLine (capacity_misses b) p2, ConflictLine (conflict_misses b) p3,
            SumLine (reported_sum b), verification b], None))))"

text \<open>
  The rows of miss\_classification.csv (lines 171 to 204), with the rows already
  written when a cell raises. \<open>Percent q\<close> is the float \<open>q\<close> rendered with one fraction
  digit and a percent sign; \<open>SizeAssoc s a\<close> is the text naming a size and an
  associativity.
\<close>

datatype cell = Text string | Number int | Percent rat | SizeAssoc string int

definition lookup :: "(string \<times> entry) list \<Rightarrow> string \<Rightarrow> error + entry" where
  "lookup res key = (case map_of res key of None \<Rightarrow> Inl KeyError | Some e \<Rightarrow> Inr e)"

definition csv_rows :: "(string \<times> entry) list \<Rightarrow> breakdown \<Rightarrow> cell list list \<times> error option" where
  "csv_rows res b =
     (let r0 = [Text ''Miss Type'', Text ''Total Misses'', Text ''Percentage'',
                Text ''Configuration Used To Discover This'']
      in case lookup res ''baseline'' of
        Inl e \<Rightarrow> ([r0], Some e)
      | Inr base \<Rightarrow>
     (let r1 = [Text ''Total'', Number (total_misses b), Text ''100%'',
                SizeAssoc (e_l1d_size base) (e_l1d_assoc base)]
      in case true_div (100 * cold_misses b) (total_misses b) of
        Inl e \<Rightarrow> ([r0, r1], Some e)
      | Inr p1 \<Rightarrow>
     (case lookup res ''no_capacity'' of
        Inl e \<Rightarrow> ([r0, r1], Some e)
      | Inr nc \<Rightarrow>
     (let r2 = [Text ''Cold'', Number (cold_misses b), Percent p1,
                SizeAssoc (e_l1d_size nc) (e_l1d_assoc nc)]
      in case true_div (100 * capacity_misses b) (total_misses b) of
        Inl e \<Rightarrow> ([r0, r1, r2], Some e)
      | Inr p2 \<Rightarrow>
     (let r3 = [Text ''Capacity'', Number (capacity_misses b), Percent p2,
                Text ''Difference between (1kB, 8-way) and (8kB, 8-way)'']
      in case true_div (100 * conflict_misses b) (total_misses b) of
        Inl e \<Rightarrow> ([r0, r1, r2, r3], Some e)
      | Inr p3 \<Rightarrow>
          ([r0, r1, r2, r3,
            [Text ''Conflict'', Number (conflict_misses b), Percent p3,
             Text ''Difference between (1kB, 2-way) and (1kB, 8-way)'']], None))))))"

text \<open>The part of \<open>main\<close> after the loop (lines 140 to 209).\<close>

definition misses_of :: "(string \<times> entry) list \<Rightarrow> string \<Rightarrow> error + int" where
  "misses_of res key = (case lookup res key of Inl e \<Rightarrow> Inl e | Inr e \<Rightarrow> Inr (e_misses e))"

definition classify ::
  "cm_state \<Rightarrow> ((string \<times> entry) list, cell) outcome" where
  "classify st =
     (let res = cm_results st;
          stop = (\<lambda>ev e. \<lparr>results = res, trace = cm_trace st @ ev, csv = None, raised = Some e\<rparr>)
      in if length res = 3
         then (case misses_of res ''baseline'' of
                 Inl e \<Rightarrow> stop [Heading] e
               | Inr total_m \<Rightarrow>
              (case misses_of res ''no_conflict'' of
                 Inl e \<Rightarrow> stop [Heading] e
               | Inr cold_capacity_m \<Rightarrow>
              (case misses_of res ''no_capacity'' of
                 Inl e \<Rightarrow> stop [Heading] e
               | Inr cold_m \<Rightarrow>
              (let b = miss_breakdown total_m cold_capacity_m cold_m
               in case report b of
                 (ev, Some e) \<Rightarrow> stop (Heading # ev) e
               | (ev, None) \<Rightarrow>
              (case csv_rows res b of
                 (rows, Some e) \<Rightarrow>
                   \<lparr>results = res, trace = cm_trace st @ Heading # ev,
                    csv = Some rows, raised = Some e\<rparr>
               | (rows, None) \<Rightarrow>
                   \<lparr>results = res, trace = cm_trace st @ Heading # ev @ [CsvWritten],
                    csv = Some rows, raised = None\<rparr>)))))
         else \<lparr>results = res, trace = cm_trace st @ [NotAllCompleted],
               csv = None, raised = None\<rparr>)"

definition main_cm :: "install \<Rightarrow> world \<Rightarrow> ((string \<times> entry) list, cell) outcome" where
  "main_cm i w =
     (let st = loop_cm i w CONFIGS_cm \<lparr>cm_results = [], cm_trace = [], cm_raised = None\<rparr>
      in case cm_raised st of
           Some e \<Rightarrow> \<lparr>results = cm_results st, trace = cm_trace st, csv = None, raised = Some e\<rparr>
         | None \<Rightarrow> classify st)"

section \<open>run\_experiments.py\<close>

type_synonym config_re = "string \<times> int \<times> string"

definition CONFIGS_re :: "config_re list" where
  "CONFIGS_re =
     [(''1GHz'', 2, ''1kB''),
      (''1GHz'', 2, ''2kB''),
      (''1GHz'', 2, ''4kB''),
      (''1GHz'', 2, ''8kB''),
      (''0.8GHz'', 4, ''1kB''),
      (''0.8GHz'', 4, ''2kB''),
      (''0.8GHz'', 4, ''4kB''),
      (''0.8GHz'', 4, ''8kB'')]"

definition PROGRAM_re :: string where "PROGRAM_re = ''queens''"
definition BP_TYPE_re :: string where "BP_TYPE_re = ''LocalBP''"
definition BP_SIZE_re :: int where "BP_SIZE_re = 16"
definition BP_BITS_re :: int where "BP_BITS_re = 2"

definition cmd_re :: "install \<Rightarrow> string \<Rightarrow> int \<Rightarrow> string \<Rightarrow> string \<Rightarrow> string list" where
  "cmd_re i clock_freq l1d_assoc l1d_size output_dir =
     [GEM5_BINARY i,
      ''--outdir='' @ output_dir,
      ASSIGNMENT_SCRIPT i,
      ''--prog='' @ PROGRAM_re,
      ''--bp='' @ BP_TYPE_re,
      ''--bp_size='' @ str_int BP_SIZE_re,
      ''--bp_bits='' @ str_int BP_BITS_re,
      ''--l1d_size='' @ l1d_size,
      ''--l1d_assoc='' @ str_int l1d_assoc,
      ''--clock_freq='' @ clock_freq]"

definition run_gem5_simulation_re ::
  "install \<Rightarrow> world \<Rightarrow> string \<Rightarrow> int \<Rightarrow> string \<Rightarrow> string \<Rightarrow> bool \<times> event list" where
  "run_gem5_simulation_re i w clock_freq l1d_assoc l1d_size output_dir =
     (let cmd = cmd_re i clock_freq l1d_assoc l1d_size output_dir;
          (returncode, stderr) = subprocess_run w cmd
      in if returncode = 0
         then (True, [Announce output_dir, Spawn cmd, Exited returncode, Completed])
         else (False, [Announce output_dir, Spawn cmd, Exited returncode, FailedWith stderr]))"

text \<open>
  \<open>calc_miss_rate\<close> computes on floats: \<open>float(s)\<close>, a comparison with zero, a division
  and the format \<open>.6f\<close>. These operations are parameters of the model; the guards
  and the bare \<open>except\<close> around them are the source's. The source converts the
  accesses a second time for the division, with the same result.
\<close>

record 'f float_ops =
  float_of_str :: "string \<Rightarrow> error + 'f"
  float_of_int :: "int \<Rightarrow> error + 'f"
  gt_zero :: "'f \<Rightarrow> bool"
  fdiv :: "'f \<Rightarrow> 'f \<Rightarrow> 'f"
  fmt6 :: "'f \<Rightarrow> string"

definition py_float :: "'f float_ops \<Rightarrow> pyval \<Rightarrow> error + 'f" where
  "py_float fl v =
     (case v of
        PyNone \<Rightarrow> Inl TypeError
      | PyStr s \<Rightarrow> float_of_str fl s
      | PyInt n \<Rightarrow> float_of_int fl n)"

definition calc_miss_rate :: "'f float_ops \<Rightarrow> pyval \<Rightarrow> pyval \<Rightarrow> string" where
  "calc_miss_rate fl misses accesses =
     (if accesses \<noteq> PyStr ''N/A''
      then (case py_float fl accesses of
              Inl e \<Rightarrow> ''N/A''
            | Inr a \<Rightarrow>
                if gt_zero fl a
                then (case py_float fl misses of
                        Inl e \<Rightarrow> ''N/A''
                      | Inr m \<Rightarrow> fmt6 fl (fdiv fl m a))
                else ''N/A'')
      else ''N/A'')"

record metrics =
  instructions_committed :: pyval
  avg_gap_between_requests :: pyval
  l1d_hits :: pyval
  l1d_replacements :: pyval
  l1d_miss_rate :: string
  l1i_miss_rate :: string
  l2_miss_rate :: string
  cpu_cycles :: pyval

definition extract_metrics ::
  "'f float_ops \<Rightarrow> world \<Rightarrow> string \<Rightarrow> metrics option \<times> event list" where
  "extract_metrics fl w output_dir =
     (case stats_txt w output_dir of
        None \<Rightarrow> (None, [StatsNotFound output_dir])
      | Some stats_content \<Rightarrow>
          (let instructions = parse_stat_re stats_content
                 ''board.processor.cores.core.thread_0.numInsts'';
               cycles = parse_stat_re stats_content ''board.processor.cores.core.numCycles'';
               hits = parse_stat_re stats_content
                 ''board.cache_hierarchy.ruby_system.l1_controllers.L1Dcache.m_demand_hits'';
               l1d_misses = parse_stat_re stats_content
                 ''board.cache_hierarchy.ruby_system.l1_controllers.L1Dcache.m_demand_misses'';
               l1d_accesses = parse_stat_re stats_content
                 ''board.cache_hierarchy.ruby_system.l1_controllers.L1Dcache.m_demand_accesses'';
               l1i_misses = parse_stat_re stats_content
                 ''board.cache_hierarchy.ruby_system.l1_controllers.L1Icache.m_demand_misses'';
               l1i_accesses = parse_stat_re stats_content
                 ''board.cache_hierarchy.ruby_system.l1_controllers.L1Icache.m_demand_accesses'';
               l2_misses = parse_stat_re stats_content
                 ''board.cache_hierarchy.ruby_system.l2_controllers.L2cache.m_demand_misses'';
               l2_accesses = parse_stat_re stats_content
                 ''board.cache_hierarchy.ruby_system.l2_controllers.L2cache.m_demand_accesses'';
               l1_replacements = parse_stat_re stats_content
                 ''board.cache_hierarchy.ruby_system.L1Cache_Controller.L1_Replacement'';
               avg_gap = parse_stat_re stats_content ''board.memory.mem_ctrl.avgGap''
           in (Some \<lparr>instructions_committed = instructions,
                      avg_gap_between_requests = avg_gap,
                      l1d_hits = hits,
                      l1d_replacements = l1_replacements,
                      l1d_miss_rate = calc_miss_rate fl l1d_misses l1d_accesses,
                      l1i_miss_rate = calc_miss_rate fl l1i_misses l1i_accesses,
                      l2_miss_rate = calc_miss_rate fl l2_misses l2_accesses,
                      cpu_cycles = cycles\<rparr>,
               [ReadStats output_dir])))"

record result_row =
  row_clock_freq :: string
  row_l1d_assoc :: int
  row_l1d_size :: string
  row_metrics :: metrics

record re_state =
  re_results :: "result_row list"
  re_trace :: "event list"

definition output_dir_re :: "install \<Rightarrow> config_re \<Rightarrow> string" where
  "output_dir_re i c =
     (case c of (clock_freq, l1d_assoc, l1d_size) \<Rightarrow>
        path_div (SCRIPT_DIR i)
          (''results_clk'' @ clock_freq @ ''_assoc'' @ str_int l1d_assoc @ ''_size'' @ l1d_size))"

text \<open>One pass of the loop of \<open>main\<close> (lines 150 to 176).\<close>

definition step_re :: "'f float_ops \<Rightarrow> install \<Rightarrow> world \<Rightarrow> config_re \<Rightarrow> re_state \<Rightarrow> re_state" where
  "step_re fl i w c st =
     (case c of (clock_freq, l1d_assoc, l1d_size) \<Rightarrow>
        (let output_dir = output_dir_re i c;
             (success, ev) = run_gem5_simulation_re i w clock_freq l1d_assoc l1d_size output_dir
         in if \<not> success
            then st\<lparr>re_trace := re_trace st @ [Mkdir output_dir] @ ev @ [Skipping]\<rparr>
            else (case extract_metrics fl w output_dir of
                    (Some m, ev') \<Rightarrow>
                      st\<lparr>re_results :=
                           re_results st @
                             [\<lparr>row_clock_freq = clock_freq, row_l1d_assoc = l1d_assoc,
                               row_l1d_size = l1d_size, row_metrics = m\<rparr>],
                         re_trace := re_trace st @ [Mkdir output_dir] @ ev @ ev'
                                       @ [MetricsExtracted]\<rparr>
                  | (None, ev') \<Rightarrow>
                      st\<lparr>re_trace := re_trace st @ [Mkdir output_dir] @ ev @ ev'
                                       @ [MetricsFailed]\<rparr>)))"

fun loop_re ::
  "'f float_ops \<Rightarrow> install \<Rightarrow> world \<Rightarrow> config_re list \<Rightarrow> re_state \<Rightarrow> re_state" where
  "loop_re fl i w [] st = st"
| "loop_re fl i w (c # cs) st = loop_re fl i w cs (step_re fl i w c st)"

text \<open>
  The CSV file: \<open>csv.DictWriter\<close> writes the header and then one row per result, each
  value through \<open>str\<close>, in the order of \<open>fieldnames\<close>. A row is the list of its fields;
  the quoting of the CSV format is not modelled.
\<close>

definition fieldnames :: "string list" where
  "fieldnames =
     [''clock_freq'', ''l1d_assoc'', ''l1d_size'', ''instructions_committed'',
      ''avg_gap_between_requests'', ''l1d_hits'', ''l1d_replacements'', ''l1d_miss_rate'',
      ''l1i_miss_rate'', ''l2_miss_rate'', ''cpu_cycles'']"

definition csv_text :: "pyval \<Rightarrow> string" where
  "csv_text v = (case v of PyNone \<Rightarrow> [] | PyStr s \<Rightarrow> s | PyInt n \<Rightarrow> str_int n)"

definition row_cells :: "result_row \<Rightarrow> string list" where
  "row_cells r =
     [row_clock_freq r, str_int (row_l1d_assoc r), row_l1d_size r,
      csv_text (instructions_committed (row_metrics r)),
      csv_text (avg_gap_between_requests (row_metrics r)),
      csv_text (l1d_hits (row_metrics r)),
      csv_text (l1d_replacements (row_metrics r)),
      l1d_miss_rate (row_metrics r),
      l1i_miss_rate (row_metrics r),
      l2_miss_rate (row_metrics r),
      csv_text (cpu_cycles (row_metrics r))]"

definition main_re ::
  "'f float_ops \<Rightarrow> install \<Rightarrow> world \<Rightarrow> (result_row list, string) outcome" where
  "main_re fl i w =
     (let st = loop_re fl i w CONFIGS_re \<lparr>re_results = [], re_trace = []\<rparr>
      in if re_results st \<noteq> []
         then \<lparr>results = re_results st,
               trace = re_trace st @ [ResultsWritten (length (re_results st))],
               csv = Some (fieldnames # map row_cells (re_results st)),
               raised = None\<rparr>
         else \<lparr>results = re_results st, trace = re_trace st @ [NoResults],
               csv = None, raised = None\<rparr>)"

section \<open>assignment3.py\<close>

text \<open>
  The parser of \<open>argparse\<close>. An argument is declared by its option string, default,
  type, \<open>required\<close> and \<open>choices\<close>. Its attribute name on the namespace is the option
  string without the leading dashes and with every later dash replaced by an
  underscore; a dot stays a dot. A command line is taken after the lexical pass of
  argparse, as the list of the options it sets with the text given to each; a command
  line that asks for help, names an unknown option or leaves a value out is rejected
  before this point.
\<close>

datatype argtype = AsStr | AsInt

record argument =
  option_string :: string
  arg_default :: pyval
  arg_type :: argtype
  arg_required :: bool
  arg_choices :: "string list option"

definition dest :: "string \<Rightarrow> string" where
  "dest opt = map (\<lambda>c. if c = CHR ''-'' then CHR ''_'' else c) (dropWhile (\<lambda>c. c = CHR ''-'') opt)"

definition parser :: "argument list" where
  "parser =
     [\<lparr>option_string = ''--prog'', arg_default = PyNone, arg_type = AsStr,
       arg_required = True, arg_choices = Some [''daxpy'', ''queens'']\<rparr>,
      \<lparr>option_string = ''--daxpy-N'', arg_default = PyInt 100, arg_type = AsInt,
       arg_required = False, arg_choices = None\<rparr>,
      \<lparr>option_string = ''--queens-N'', arg_default = PyInt 10, arg_type = AsInt,
       arg_required = False, arg_choices = None\<rparr>,
      \<lparr>option_string = ''--bp'', arg_default = PyNone, arg_type = AsStr,
       arg_required = False, arg_choices = None\<rparr>,
      \<lparr>option_string = ''--bp_size'', arg_default = PyNone, arg_type = AsInt,
       arg_required = False, arg_choices = None\<rparr>,
      \<lparr>option_string = ''--bp_bits'', arg_default = PyNone, arg_type = AsInt,
       arg_required = False, arg_choices = None\<rparr>,
      \<lparr>option_string = ''--clock.freq'', arg_default = PyStr ''1GHz'', arg_type = AsStr,
       arg_required = False, arg_choices = None\<rparr>,
      \<lparr>option_string = ''--l1d.assoc'', arg_default = PyStr ''8'', arg_type = AsInt,
       arg_required = False, arg_choices = None\<rparr>,
      \<lparr>option_string = ''--l1d.size'', arg_default = PyStr ''64KiB'', arg_type = AsStr,
       arg_required = False, arg_choices = None\<rparr>]"

text \<open>A value given as text goes through the argument's type; a failure is a usage error.\<close>

definition convert :: "argtype \<Rightarrow> string \<Rightarrow> error + pyval" where
  "convert t s =
     (case t of
        AsStr \<Rightarrow> Inr (PyStr s)
      | AsInt \<Rightarrow> (case py_int s of Inl e \<Rightarrow> Inl (SystemExit 2) | Inr n \<Rightarrow> Inr (PyInt n)))"

text \<open>The namespace before any option is read: every declared attribute, at its default
  (a default given as text goes through the type, as argparse does at the end).\<close>

fun defaults :: "argument list \<Rightarrow> error + (string \<rightharpoonup> pyval)" where
  "defaults [] = Inr Map.empty"
| "defaults (a # as) =
     (case defaults as of
        Inl e \<Rightarrow> Inl e
      | Inr ns \<Rightarrow>
          (case arg_default a of
             PyStr s \<Rightarrow>
               (case convert (arg_type a) s of
                  Inl e \<Rightarrow> Inl e
                | Inr v \<Rightarrow> Inr (ns(dest (option_string a) \<mapsto> v)))
           | v \<Rightarrow> Inr (ns(dest (option_string a) \<mapsto> v))))"

definition find_argument :: "argument list \<Rightarrow> string \<Rightarrow> argument option" where
  "find_argument args opt = find (\<lambda>a. option_string a = opt) args"

text \<open>Reading the options from left to right; a later setting of an option replaces an
  earlier one.\<close>

fun read_options ::
  "argument list \<Rightarrow> (string \<times> string) list \<Rightarrow> (string \<rightharpoonup> pyval) \<Rightarrow> error + (string \<rightharpoonup> pyval)" where
  "read_options args [] ns = Inr ns"
| "read_options args ((opt, text) # rest) ns =
     (case find_argument args opt of
        None \<Rightarrow> Inl (SystemExit 2)
      | Some a \<Rightarrow>
          (case convert (arg_type a) text of
             Inl e \<Rightarrow> Inl e
           | Inr v \<Rightarrow>
               (case arg_choices a of
                  None \<Rightarrow> read_options args rest (ns(dest (option_string a) \<mapsto> v))
                | Some cs \<Rightarrow>
                    if v \<in> set (map PyStr cs)
                    then read_options args rest (ns(dest (option_string a) \<mapsto> v))
                    else Inl (SystemExit 2))))"

definition parse_args :: "(string \<times> string) list \<Rightarrow> error + (string \<rightharpoonup> pyval)" where
  "parse_args argv =
     (case defaults parser of
        Inl e \<Rightarrow> Inl e
      | Inr ns0 \<Rightarrow>
          (case read_options parser argv ns0 of
             Inl e \<Rightarrow> Inl e
           | Inr ns \<Rightarrow>
               if list_all (\<lambda>a. option_string a \<in> set (map fst argv))
                    (filter arg_required parser)
               then Inr ns
               else Inl (SystemExit 2)))"

text \<open>\<open>args.name\<close>: AttributeError when the namespace has no attribute of that name.\<close>

definition getattr :: "(string \<rightharpoonup> pyval) \<Rightarrow> string \<Rightarrow> error + pyval" where
  "getattr ns name = (case ns name of None \<Rightarrow> Inl AttributeError | Some v \<Rightarrow> Inr v)"

text \<open>
  The objects of the simulator framework are records of the parameters the script
  hands to their constructors; \<open>ISA\<close> is the framework's enumeration, and the single
  instruction set the binary supports is a parameter of the script.
\<close>

datatype ISA = ARM | MIPS | POWER | RISCV | SPARC | X86 | NULL

datatype branch_predictor = TournamentBP pyval pyval | LocalBP pyval pyval

record cache_hierarchy =
  ch_l1d_size :: pyval
  ch_l1d_assoc :: pyval
  ch_l1i_size :: string
  ch_l1i_assoc :: int
  ch_l2_size :: string
  ch_l2_assoc :: int
  ch_num_l2_banks :: int

record simple_board =
  board_clk_freq :: string
  board_branch_pred :: branch_predictor
  board_memory :: string
  board_cache_hierarchy :: cache_hierarchy
  board_binary :: string
  board_arguments :: "pyval list"

text \<open>Lines 75 to 77: the clock the board gets.\<close>

definition clk_freq :: "ISA \<Rightarrow> string" where
  "clk_freq isa = (if isa = ARM \<or> isa = RISCV then ''1.2GHz'' else ''1GHz'')"

text \<open>Lines 80 to 88.\<close>

definition make_cache_hierarchy :: "(string \<rightharpoonup> pyval) \<Rightarrow> error + cache_hierarchy" where
  "make_cache_hierarchy args =
     (case getattr args ''l1d_size'' of
        Inl e \<Rightarrow> Inl e
      | Inr l1d_size \<Rightarrow>
          (case getattr args ''l1d_assoc'' of
             Inl e \<Rightarrow> Inl e
           | Inr l1d_assoc \<Rightarrow>
               Inr \<lparr>ch_l1d_size = l1d_size, ch_l1d_assoc = l1d_assoc, ch_l1i_size = ''16kB'',
                    ch_l1i_assoc = 2, ch_l2_size = ''256kB'', ch_l2_assoc = 8,
                    ch_num_l2_banks = 1\<rparr>))"

definition isa_value :: "ISA \<Rightarrow> string" where
  "isa_value isa =
     (case isa of ARM \<Rightarrow> ''arm'' | MIPS \<Rightarrow> ''mips'' | POWER \<Rightarrow> ''power'' | RISCV \<Rightarrow> ''riscv''
      | SPARC \<Rightarrow> ''sparc'' | X86 \<Rightarrow> ''x86'' | NULL \<Rightarrow> ''null'')"

text \<open>Lines 55 to 73: the branch predictor of the core.\<close>

definition make_branch_pred :: "(string \<rightharpoonup> pyval) \<Rightarrow> pyval \<Rightarrow> error + branch_predictor" where
  "make_branch_pred args bp =
     (if bp = PyStr ''TournamentBP''
      then (case getattr args ''bp_size'' of
              Inl e \<Rightarrow> Inl e
            | Inr bp_size \<Rightarrow>
                (case getattr args ''bp_bits'' of
                   Inl e \<Rightarrow> Inl e
                 | Inr bp_bits \<Rightarrow> Inr (TournamentBP bp_size bp_bits)))
      else (case getattr args ''bp_size'' of
              Inl e \<Rightarrow> Inl e
            | Inr bp_size \<Rightarrow>
                (case getattr args ''bp_bits'' of
                   Inl e \<Rightarrow> Inl e
                 | Inr bp_bits \<Rightarrow> Inr (LocalBP bp_size bp_bits))))"

text \<open>Line 102: \<open>program_str + "_" + isa_str\<close> joined to the directory of test programs.\<close>

definition full_program_path :: "string \<Rightarrow> pyval \<Rightarrow> ISA \<Rightarrow> error + string" where
  "full_program_path gem5_path program_str isa =
     (case program_str of
        PyStr s \<Rightarrow>
          Inr (os_path_join (os_path_join gem5_path ''testprogs'') (s @ ''_'' @ isa_value isa))
      | _ \<Rightarrow> Inl TypeError)"

text \<open>The script from its first line to the board it hands to the simulator.\<close>

definition assignment3 ::
  "string option \<Rightarrow> ISA \<Rightarrow> (string \<times> string) list \<Rightarrow> error + simple_board" where
  "assignment3 environ_GEM5 isa argv =
     (case environ_GEM5 of
        None \<Rightarrow> Inl KeyError
      | Some gem5_path \<Rightarrow>
     (case parse_args argv of
        Inl e \<Rightarrow> Inl e
      | Inr args \<Rightarrow>
     (case getattr args ''prog'' of
        Inl e \<Rightarrow> Inl e
      | Inr program_str \<Rightarrow>
     (case getattr args ''daxpy_N'' of
        Inl e \<Rightarrow> Inl e
      | Inr daxpy_N \<Rightarrow>
     (case getattr args ''queens_N'' of
        Inl e \<Rightarrow> Inl e
      | Inr queens_N \<Rightarrow>
     (case getattr args ''bp'' of
        Inl e \<Rightarrow> Inl e
      | Inr bp \<Rightarrow>
     (case make_branch_pred args bp of
        Inl e \<Rightarrow> Inl e
      | Inr bp_core \<Rightarrow>
     (case make_cache_hierarchy args of
        Inl e \<Rightarrow> Inl e
      | Inr hierarchy \<Rightarrow>
     (case full_program_path gem5_path program_str isa of
        Inl e \<Rightarrow> Inl e
      | Inr path \<Rightarrow>
          Inr \<lparr>board_clk_freq = clk_freq isa,
               board_branch_pred = bp_core,
               board_memory = ''32MB'',
               board_cache_hierarchy = hierarchy,
               board_binary = path,
               board_arguments =
                 (if program_str = PyStr ''daxpy'' then [daxpy_N]
                  else if program_str = PyStr ''queens'' then [queens_N]
                  else [])\<rparr>)))))))))"

section \<open>Reading a run\<close>

text \<open>
  The command lines a run started, in order; the events of child processes; the
  command line a driver builds for a configuration; whether the child it starts exits
  with a nonzero status; and everything a pass of the loop does when it does.
\<close>

fun spawned :: "event list \<Rightarrow> string list list" where
  "spawned [] = []"
| "spawned (Spawn cmd # es) = cmd # spawned es"
| "spawned (e # es) = spawned es"

definition is_process_event :: "event \<Rightarrow> bool" where
  "is_process_event e = (case e of Spawn cmd \<Rightarrow> True | Exited n \<Rightarrow> True | _ \<Rightarrow> False)"

definition invocation_re :: "install \<Rightarrow> config_re \<Rightarrow> string list" where
  "invocation_re i c =
     (case c of (clock_freq, l1d_assoc, l1d_size) \<Rightarrow>
        cmd_re i clock_freq l1d_assoc l1d_size (output_dir_re i c))"

definition invocation_cm :: "install \<Rightarrow> config_cm \<Rightarrow> string list" where
  "invocation_cm i c =
     (case c of (name, l1d_size, l1d_assoc, purpose) \<Rightarrow>
        cmd_cm i l1d_size l1d_assoc (output_dir_cm i c))"

definition run_failed :: "world \<Rightarrow> string list \<Rightarrow> bool" where
  "run_failed w cmd = (fst (subprocess_run w cmd) \<noteq> 0)"

definition failure_events :: "world \<Rightarrow> string \<Rightarrow> string list \<Rightarrow> event list" where
  "failure_events w output_dir cmd =
     [Mkdir output_dir, Announce output_dir, Spawn cmd, Exited (fst (subprocess_run w cmd)),
      FailedWith (snd (subprocess_run w cmd)), Skipping]"

definition config_of_row :: "result_row \<Rightarrow> config_re" where
  "config_of_row r = (row_clock_freq r, row_l1d_assoc r, row_l1d_size r)"

text \<open>A configuration gets a row when its run succeeds and leaves a statistics file.\<close>

definition yields_row :: "install \<Rightarrow> world \<Rightarrow> config_re \<Rightarrow> bool" where
  "yields_row i w c \<longleftrightarrow>
     \<not> run_failed w (invocation_re i c) \<and> stats_txt w (output_dir_re i c) \<noteq> None"

text \<open>
  The claim about \<open>parse_stat\<close> in its own words: the name stands at the beginning of a
  line (\<open>pre\<close> is the text before it), whitespace follows, then a token of characters
  that are not whitespace, taken to its end. The first occurrence is the one with the
  shortest text before it.
\<close>

definition line_start :: "string \<Rightarrow> bool" where
  "line_start pre \<longleftrightarrow> pre = [] \<or> last pre = CHR 0x0A"

definition token_after :: "string \<Rightarrow> string \<Rightarrow> string \<Rightarrow> bool" where
  "token_after name s tok \<longleftrightarrow>
     (\<exists>ws post. s = name @ ws @ tok @ post \<and>
        ws \<noteq> [] \<and> (\<forall>c \<in> set ws. is_space c) \<and>
        tok \<noteq> [] \<and> (\<forall>c \<in> set tok. \<not> is_space c) \<and>
        (post = [] \<or> is_space (hd post)))"

definition anchored_occurrence :: "string \<Rightarrow> string \<Rightarrow> string \<Rightarrow> string \<Rightarrow> bool" where
  "anchored_occurrence content name pre tok \<longleftrightarrow>
     line_start pre \<and> (\<exists>rest. content = pre @ rest \<and> token_after name rest tok)"

definition first_occurrence :: "string \<Rightarrow> string \<Rightarrow> string \<Rightarrow> string \<Rightarrow> bool" where
  "first_occurrence content name pre tok \<longleftrightarrow>
     anchored_occurrence content name pre tok \<and>
     (\<forall>pre' tok'. anchored_occurrence content name pre' tok' \<longrightarrow> length pre \<le> length pre')"

section \<open>Concrete installations and environments\<close>

definition demo_install :: install where
  "demo_install = \<lparr>GEM5_PATH = ''/opt/gem5'', SCRIPT_DIR = ''/home/user/assign3''\<rparr>"

text \<open>Every run succeeds and every report counts zero L1D demand misses.\<close>

definition zero_miss_world :: world where
  "zero_miss_world =
     \<lparr>subprocess_run = (\<lambda>cmd. (0, [])),
      stats_txt = (\<lambda>d. Some (L1D_MISSES @ ''     0     # (Unspecified)''))\<rparr>"

text \<open>Every run with an 8kB data cache exits with status 1; the others succeed.\<close>

definition flaky_world :: world where
  "flaky_world =
     \<lparr>subprocess_run =
        (\<lambda>cmd. if ''--l1d_size=8kB'' \<in> set cmd then (1, ''fatal: simulation aborted'')
               else (0, [])),
      stats_txt = (\<lambda>d. Some (L1D_MISSES @ ''     1520     # (Unspecified)''))\<rparr>"

text \<open>
  Float operations to run the model on examples: exact arithmetic on the integer
  literals, printed with six fraction digits.
\<close>

definition fmt6_rat :: "rat \<Rightarrow> string" where
  "fmt6_rat q =
     (let n = nat \<lfloor>\<bar>q\<bar> * 1000000 + 1 / 2\<rfloor>;
          frac = str_nat (n mod 1000000)
      in (if q < 0 then ''-'' else []) @ str_nat (n div 1000000) @ ''.''
           @ replicate (6 - length frac) (CHR ''0'') @ frac)"

definition exact_floats :: "rat float_ops" where
  "exact_floats =
     \<lparr>float_of_str = (\<lambda>s. case py_int s of Inl e \<Rightarrow> Inl e | Inr n \<Rightarrow> Inr (of_int n)),
      float_of_int = (\<lambda>n. Inr (of_int n)),
      gt_zero = (\<lambda>x. 0 < x),
      fdiv = (\<lambda>x y. x / y),
      fmt6 = fmt6_rat\<rparr>"

text \<open>Two small statistics files: in the second the name stands only inside a line.\<close>

definition sample_stats :: string where
  "sample_stats =
     ''sim numCycles 1\<newline>numCycles.total 2\<newline>numCycles   2000#x  # c\<newline>''"

definition mid_line_stats :: string where
  "mid_line_stats = ''sim numCycles 1''"

section \<open>Line-anchored matching\<close>

lemma strip_prefix_Some: "strip_prefix p s = Some r \<longleftrightarrow> s = p @ r"
  by (induction p s rule: strip_prefix.induct) auto

lemma runs_unique:
  assumes "r = ws @ tok @ post" "\<forall>c \<in> set ws. is_space c" "tok \<noteq> []"
    "\<forall>c \<in> set tok. \<not> is_space c" "post = [] \<or> is_space (hd post)"
  shows "takeWhile is_space r = ws"
    and "takeWhile (\<lambda>c. \<not> is_space c) (dropWhile is_space r) = tok"
proof -
  from assms(3,4) have h: "\<not> is_space (hd (tok @ post))" by (cases tok) auto
  have ne: "tok @ post \<noteq> []" using assms(3) by simp
  show "takeWhile is_space r = ws"
    unfolding assms(1) using assms(2) h ne
    by (metis (no_types, lifting) append_Nil2 hd_Cons_tl takeWhile.simps(2) takeWhile_append2
        takeWhile_eq_all_conv)
  have d: "dropWhile is_space r = tok @ post"
    unfolding assms(1) using assms(2) h ne
    by (metis (no_types, lifting) dropWhile.simps(2) dropWhile_append2 hd_Cons_tl)
  show "takeWhile (\<lambda>c. \<not> is_space c) (dropWhile is_space r) = tok"
    unfolding d using assms(4,5)
    by (cases post) (auto simp: takeWhile_append2)
qed

text \<open>The pattern matches at a position exactly when the name, whitespace and a token
  stand there, and the group is that token.\<close>

lemma match_here_iff: "match_here name s = Some tok \<longleftrightarrow> token_after name s tok"
proof
  assume m: "match_here name s = Some tok"
  then obtain r where r: "s = name @ r"
    by (auto simp: match_here_def strip_prefix_Some split: option.splits)
  let ?ws = "takeWhile is_space r"
  let ?d = "dropWhile is_space r"
  let ?post = "dropWhile (\<lambda>c. \<not> is_space c) ?d"
  from m r have sp: "strip_prefix name s = Some r" by (simp add: strip_prefix_Some)
  from m sp have ws: "?ws \<noteq> []" and tok: "tok = takeWhile (\<lambda>c. \<not> is_space c) ?d"
    and tne: "tok \<noteq> []"
    by (auto simp: match_here_def Let_def split: if_splits)
  have "s = name @ ?ws @ tok @ ?post" using r tok by simp
  moreover have "\<forall>c \<in> set ?ws. is_space c" by (auto dest: set_takeWhileD)
  moreover have "\<forall>c \<in> set tok. \<not> is_space c" unfolding tok by (auto dest: set_takeWhileD)
  moreover have "?post = [] \<or> is_space (hd ?post)"
    using hd_dropWhile[of "\<lambda>c. \<not> is_space c" ?d] by auto
  ultimately show "token_after name s tok"
    unfolding token_after_def using ws tne by blast
next
  assume "token_after name s tok"
  then obtain ws post where s: "s = name @ ws @ tok @ post"
    and ws: "ws \<noteq> []" "\<forall>c \<in> set ws. is_space c"
    and tok: "tok \<noteq> []" "\<forall>c \<in> set tok. \<not> is_space c"
    and post: "post = [] \<or> is_space (hd post)"
    unfolding token_after_def by blast
  have sp: "strip_prefix name s = Some (ws @ tok @ post)" using s by (simp add: strip_prefix_Some)
  note u = runs_unique[OF refl ws(2) tok post]
  show "match_here name s = Some tok"
    using sp u ws(1) tok(1) by (simp add: match_here_def Let_def)
qed

lemma search_from_None:
  "search_from bol name s = None \<longleftrightarrow>
     (\<forall>pre rest. s = pre @ rest \<and> (if pre = [] then bol else last pre = CHR 0x0A)
        \<longrightarrow> match_here name rest = None)"
proof (induction s arbitrary: bol)
  case Nil
  then show ?case by auto
next
  case (Cons c cs)
  show ?case
  proof
    assume a: "search_from bol name (c # cs) = None"
    then have h: "bol \<longrightarrow> match_here name (c # cs) = None"
      and t: "search_from (c = CHR 0x0A) name cs = None"
      by (auto split: option.splits if_splits)
    show "\<forall>pre rest. c # cs = pre @ rest \<and> (if pre = [] then bol else last pre = CHR 0x0A)
        \<longrightarrow> match_here name rest = None"
    proof (intro allI impI)
      fix pre rest
      assume p: "c # cs = pre @ rest \<and> (if pre = [] then bol else last pre = CHR 0x0A)"
      show "match_here name rest = None"
      proof (cases pre)
        case Nil
        with p h show ?thesis by simp
      next
        case (Cons d pre')
        with p have e: "cs = pre' @ rest" "d = c" by auto
        from p Cons have "if pre' = [] then c = CHR 0x0A else last pre' = CHR 0x0A"
          by (cases pre') (auto simp: e)
        with t Cons.IH e show ?thesis by blast
      qed
    qed
  next
    assume a: "\<forall>pre rest. c # cs = pre @ rest \<and> (if pre = [] then bol else last pre = CHR 0x0A)
        \<longrightarrow> match_here name rest = None"
    have h: "bol \<longrightarrow> match_here name (c # cs) = None"
      using a[rule_format, of "[]" "c # cs"] by simp
    have "\<forall>pre rest. cs = pre @ rest \<and> (if pre = [] then c = CHR 0x0A else last pre = CHR 0x0A)
        \<longrightarrow> match_here name rest = None"
    proof (intro allI impI)
      fix pre rest
      assume p: "cs = pre @ rest \<and> (if pre = [] then c = CHR 0x0A else last pre = CHR 0x0A)"
      then have "if c # pre = [] then bol else last (c # pre) = CHR 0x0A"
        by (cases pre) auto
      with a[rule_format, of "c # pre" rest] p show "match_here name rest = None" by simp
    qed
    then have "search_from (c = CHR 0x0A) name cs = None" using Cons.IH by blast
    with h show "search_from bol name (c # cs) = None" by (auto split: option.splits)
  qed
qed

lemma search_from_first:
  assumes "s = pre @ rest" "if pre = [] then bol else last pre = CHR 0x0A"
    and "match_here name rest = Some tok"
    and "\<And>pre' rest'. s = pre' @ rest' \<Longrightarrow> (if pre' = [] then bol else last pre' = CHR 0x0A)
            \<Longrightarrow> length pre' < length pre \<Longrightarrow> match_here name rest' = None"
  shows "search_from bol name s = Some tok"
  using assms
proof (induction s arbitrary: bol pre)
  case Nil
  then show ?case by simp
next
  case (Cons c cs)
  show ?case
  proof (cases pre)
    case Nil
    with Cons.prems have "rest = c # cs" "bol" by simp_all
    with Cons.prems(3) show ?thesis by simp
  next
    case (Cons d q)
    with Cons.prems have e: "cs = q @ rest" "d = c" by auto
    have h: "bol \<Longrightarrow> match_here name (c # cs) = None"
      using Cons.prems(4)[of "[]" "c # cs"] Cons by simp
    have 2: "if q = [] then c = CHR 0x0A else last q = CHR 0x0A"
      using Cons.prems(2) Cons e by (cases q) auto
    have 3: "match_here name rest' = None"
      if "cs = q' @ rest'" "if q' = [] then c = CHR 0x0A else last q' = CHR 0x0A"
        "length q' < length q" for q' rest'
    proof -
      have "if c # q' = [] then bol else last (c # q') = CHR 0x0A"
        using that(2) by (cases q') auto
      with Cons.prems(4)[of "c # q'" rest'] that Cons show ?thesis by simp
    qed
    have "search_from (c = CHR 0x0A) name cs = Some tok"
    proof (rule Cons.IH[OF e(1) 2 Cons.prems(3)])
      fix pre' rest'
      assume "cs = pre' @ rest'" "if pre' = [] then c = CHR 0x0A else last pre' = CHR 0x0A"
        "length pre' < length q"
      then show "match_here name rest' = None" by (rule 3)
    qed
    with h show ?thesis by (cases bol) auto
  qed
qed

lemma line_start_iff: "(if pre = [] then True else last pre = CHR 0x0A) = line_start pre"
  by (simp add: line_start_def)

lemma re_search_None_iff:
  "re_search name content = None \<longleftrightarrow> (\<nexists>pre tok. anchored_occurrence content name pre tok)"
proof -
  have "re_search name content = None \<longleftrightarrow>
     (\<forall>pre rest. content = pre @ rest \<and> line_start pre \<longrightarrow> match_here name rest = None)"
    by (simp add: re_search_def search_from_None line_start_iff)
  also have "\<dots> \<longleftrightarrow> (\<nexists>pre tok. anchored_occurrence content name pre tok)"
    unfolding anchored_occurrence_def match_here_iff[symmetric]
    by (metis not_Some_eq option.distinct(1))
  finally show ?thesis .
qed

lemma re_search_first:
  assumes "first_occurrence content name pre tok"
  shows "re_search name content = Some tok"
proof -
  from assms have o: "anchored_occurrence content name pre tok"
    and least: "\<And>pre' tok'. anchored_occurrence content name pre' tok' \<Longrightarrow> length pre \<le> length pre'"
    unfolding first_occurrence_def by blast+
  from o obtain rest where r: "content = pre @ rest" "line_start pre"
    "match_here name rest = Some tok"
    unfolding anchored_occurrence_def match_here_iff by blast
  have m: "match_here name rest' = None"
    if "content = pre' @ rest'" "if pre' = [] then True else last pre' = CHR 0x0A"
      "length pre' < length pre" for pre' rest'
  proof (rule ccontr)
    assume "match_here name rest' \<noteq> None"
    then obtain t where "match_here name rest' = Some t" by auto
    with that have "anchored_occurrence content name pre' t"
      unfolding anchored_occurrence_def match_here_iff[symmetric] line_start_iff by blast
    from least[OF this] that(3) show False by simp
  qed
  show ?thesis unfolding re_search_def
    by (rule search_from_first[OF r(1) _ r(3) m]) (simp_all add: line_start_iff r(2))
qed

lemma first_occurrence_exists:
  assumes "anchored_occurrence content name pre tok"
  shows "\<exists>pre' tok'. first_occurrence content name pre' tok'"
proof -
  let ?P = "\<lambda>x. anchored_occurrence content name (fst x) (snd x)"
  from assms have "?P (pre, tok)" by simp
  from ex_has_least_nat[of ?P "(pre, tok)" "\<lambda>x. length (fst x)"] this
  obtain x where "?P x" "\<forall>y. ?P y \<longrightarrow> length (fst x) \<le> length (fst y)" by blast
  then have "first_occurrence content name (fst x) (snd x)"
    unfolding first_occurrence_def by auto
  then show ?thesis by blast
qed

lemma re_search_Some_first:
  assumes "re_search name content = Some tok"
  shows "\<exists>pre. first_occurrence content name pre tok"
proof -
  from assms re_search_None_iff[of name content]
  obtain p t where "anchored_occurrence content name p t" by auto
  from first_occurrence_exists[OF this] obtain pre tok' where
    f: "first_occurrence content name pre tok'" by blast
  from re_search_first[OF f] assms have "tok' = tok" by simp
  with f show ?thesis by blast
qed

lemma strip_no_space:
  assumes "\<forall>c \<in> set s. \<not> is_space c"
  shows "strip s = s"
proof -
  have d: "dropWhile is_space xs = xs" if "\<forall>c \<in> set xs. \<not> is_space c" for xs
    using that by (cases xs) auto
  show ?thesis using assms by (simp add: strip_def d)
qed

lemma strip_token:
  "\<forall>c \<in> set tok. \<not> is_space c \<Longrightarrow>
     strip (split_first (CHR ''#'') tok) = split_first (CHR ''#'') tok"
  by (rule strip_no_space) (auto simp: split_first_def dest: set_takeWhileD)

lemma anchored_token_no_space:
  "anchored_occurrence content name pre tok \<Longrightarrow> \<forall>c \<in> set tok. \<not> is_space c"
  unfolding anchored_occurrence_def token_after_def by blast

lemma occurrence_mid_line:
  assumes "\<forall>p post. content = p @ name @ post \<longrightarrow> \<not> line_start p"
  shows "\<nexists>pre tok. anchored_occurrence content name pre tok"
  using assms unfolding anchored_occurrence_def token_after_def by blast

text \<open>
  C4. \<open>parse_stat\<close> matches only at the beginning of a line. It finds a value exactly
  when the name stands at the beginning of some line, followed by whitespace and a
  token of characters that are not whitespace; it then returns the token of the first
  such line, cut at its first \<open>#\<close>. Otherwise, and so when the name stands only inside
  lines, it gives its no-match result: the text \<open>N/A\<close> in run\_experiments.py, \<open>None\<close>
  in classify\_misses.py.
\<close>

theorem parse_stat_line_anchored:
  "(parse_stat_cm content name \<noteq> PyNone \<longleftrightarrow>
      (\<exists>pre tok. anchored_occurrence content name pre tok)) \<and>
   ((\<nexists>pre tok. anchored_occurrence content name pre tok) \<longrightarrow>
      parse_stat_re content name = PyStr ''N/A'') \<and>
   ((\<exists>pre tok. anchored_occurrence content name pre tok) \<longrightarrow>
      (\<exists>pre tok. first_occurrence content name pre tok)) \<and>
   (first_occurrence content name pre tok \<longrightarrow>
      parse_stat_re content name = PyStr (split_first (CHR ''#'') tok) \<and>
      parse_stat_cm content name = PyStr (split_first (CHR ''#'') tok)) \<and>
   ((\<forall>p post. content = p @ name @ post \<longrightarrow> \<not> line_start p) \<longrightarrow>
      parse_stat_re content name = PyStr ''N/A'' \<and> parse_stat_cm content name = PyNone)"
proof (intro conjI impI)
  show "parse_stat_cm content name \<noteq> PyNone \<longleftrightarrow>
      (\<exists>pre tok. anchored_occurrence content name pre tok)"
    using re_search_None_iff[of name content]
    by (auto simp: parse_stat_cm_def split: option.splits)
next
  assume "\<nexists>pre tok. anchored_occurrence content name pre tok"
  then show "parse_stat_re content name = PyStr ''N/A''"
    using re_search_None_iff[of name content] by (simp add: parse_stat_re_def)
next
  assume "\<exists>pre tok. anchored_occurrence content name pre tok"
  then show "\<exists>pre tok. first_occurrence content name pre tok"
    using first_occurrence_exists by blast
next
  assume a: "first_occurrence content name pre tok"
  then have r: "re_search name content = Some tok" by (rule re_search_first)
  from a have n: "\<forall>c \<in> set tok. \<not> is_space c"
    using anchored_token_no_space unfolding first_occurrence_def by blast
  show "parse_stat_re content name = PyStr (split_first (CHR ''#'') tok)"
    by (simp add: parse_stat_re_def r strip_token[OF n])
  show "parse_stat_cm content name = PyStr (split_first (CHR ''#'') tok)"
    by (simp add: parse_stat_cm_def r strip_token[OF n])
next
  assume a: "\<forall>p post. content = p @ name @ post \<longrightarrow> \<not> line_start p"
  from occurrence_mid_line[OF a] have r: "re_search name content = None"
    using re_search_None_iff[of name content] by simp
  show "parse_stat_re content name = PyStr ''N/A''" by (simp add: parse_stat_re_def r)
  show "parse_stat_cm content name = PyNone" by (simp add: parse_stat_cm_def r)
qed

text \<open>
  In \<open>sample_stats\<close> the name \<open>numCycles\<close> stands inside the first line, before a dot at
  the start of the second, and before whitespace and \<open>2000#x\<close> at the start of the
  third. In \<open>mid_line_stats\<close> it stands only inside a line.
\<close>

theorem parse_stat_line_anchored_witness:
  "(\<exists>pre. first_occurrence sample_stats ''numCycles'' pre ''2000#x'') \<and>
   parse_stat_re sample_stats ''numCycles'' = PyStr ''2000'' \<and>
   parse_stat_cm sample_stats ''numCycles'' = PyStr ''2000'' \<and>
   (\<nexists>pre tok. anchored_occurrence mid_line_stats ''numCycles'' pre tok) \<and>
   parse_stat_re mid_line_stats ''numCycles'' = PyStr ''N/A'' \<and>
   parse_stat_cm mid_line_stats ''numCycles'' = PyNone"
proof -
  have "re_search ''numCycles'' sample_stats = Some ''2000#x''"
    by (simp add: re_search_def sample_stats_def match_here_def is_space_def)
  from re_search_Some_first[OF this] obtain pre where
    f: "first_occurrence sample_stats ''numCycles'' pre ''2000#x''" by blast
  have mid: "\<forall>p post. mid_line_stats = p @ ''numCycles'' @ post \<longrightarrow> \<not> line_start p"
  proof (intro allI impI)
    fix p post
    assume e: "mid_line_stats = p @ ''numCycles'' @ post"
    have ne: "p \<noteq> []"
    proof
      assume "p = []"
      with e show False by (simp add: mid_line_stats_def)
    qed
    then have lp: "last p \<in> set p" by simp
    have "set p \<subseteq> set mid_line_stats" by (subst e) auto
    with lp have "last p \<in> set mid_line_stats" by blast
    then have "last p \<noteq> CHR 0x0A" by (auto simp: mid_line_stats_def)
    with ne show "\<not> line_start p" by (simp add: line_start_def)
  qed
  have s: "split_first (CHR ''#'') ''2000#x'' = ''2000''" by (simp add: split_first_def)
  note t1 = parse_stat_line_anchored[of sample_stats "''numCycles''" pre "''2000#x''"]
  note t2 = parse_stat_line_anchored[of mid_line_stats "''numCycles''" "[]" "[]"]
  from t1 f s have 1: "parse_stat_re sample_stats ''numCycles'' = PyStr ''2000''"
    and 2: "parse_stat_cm sample_stats ''numCycles'' = PyStr ''2000''" by simp_all
  from t2 mid have 3: "parse_stat_re mid_line_stats ''numCycles'' = PyStr ''N/A''"
    and 4: "parse_stat_cm mid_line_stats ''numCycles'' = PyNone" by blast+
  from t2 4 have 5: "\<nexists>pre tok. anchored_occurrence mid_line_stats ''numCycles'' pre tok"
    by blast
  from f 1 2 3 4 5 show ?thesis by blast
qed

text \<open>
  C9, as the claim states it, fails where nothing matches: run\_experiments.py returns
  the text \<open>N/A\<close> there, classify\_misses.py returns \<open>None\<close>.
\<close>

theorem parse_stat_no_match_differs:
  "parse_stat_re mid_line_stats ''numCycles'' \<noteq> parse_stat_cm mid_line_stats ''numCycles''"
  by (simp add: parse_stat_re_def parse_stat_cm_def re_search_def mid_line_stats_def
      match_here_def)

text \<open>
  C9, amended. The two \<open>parse_stat\<close> return the same value whenever the pattern matches;
  when nothing matches, the one of run\_experiments.py returns the text \<open>N/A\<close> and the
  one of classify\_misses.py returns \<open>None\<close>.
\<close>

theorem parse_stat_agree_on_match:
  "(parse_stat_cm content name \<noteq> PyNone \<longrightarrow>
      parse_stat_re content name = parse_stat_cm content name) \<and>
   (parse_stat_cm content name = PyNone \<longrightarrow> parse_stat_re content name = PyStr ''N/A'')"
  by (simp add: parse_stat_re_def parse_stat_cm_def split: option.splits)

theorem parse_stat_agree_on_match_witness:
  "parse_stat_cm sample_stats ''numCycles'' \<noteq> PyNone \<and>
   parse_stat_re sample_stats ''numCycles'' = parse_stat_cm sample_stats ''numCycles'' \<and>
   parse_stat_cm mid_line_stats ''numCycles'' = PyNone \<and>
   parse_stat_re mid_line_stats ''numCycles'' = PyStr ''N/A''"
proof -
  have a: "parse_stat_cm sample_stats ''numCycles'' \<noteq> PyNone"
    by (simp add: parse_stat_cm_def re_search_def sample_stats_def match_here_def is_space_def)
  have b: "parse_stat_cm mid_line_stats ''numCycles'' = PyNone"
    by (simp add: parse_stat_cm_def re_search_def mid_line_stats_def match_here_def)
  show ?thesis
    using a b parse_stat_agree_on_match[of sample_stats "''numCycles''"]
      parse_stat_agree_on_match[of mid_line_stats "''numCycles''"]
    by blast
qed

section \<open>The miss classification\<close>

lemma step_cm_no_mismatch:
  "SumMismatch \<notin> set (cm_trace st) \<Longrightarrow> SumMismatch \<notin> set (cm_trace (step_cm i w c st))"
  by (auto simp: step_cm_def run_gem5_simulation_cm_def extract_l1d_misses_def Let_def
      split: prod.splits if_splits sum.splits option.splits)

lemma loop_cm_no_mismatch:
  "SumMismatch \<notin> set (cm_trace st) \<Longrightarrow> SumMismatch \<notin> set (cm_trace (loop_cm i w cs st))"
  by (induction cs arbitrary: st) (auto simp: Let_def step_cm_no_mismatch)

lemma verification_passed: "verification (miss_breakdown t cc c) = VerificationPassed"
  by (simp add: verification_def miss_breakdown_def)

lemma report_no_mismatch: "SumMismatch \<notin> set (fst (report (miss_breakdown t cc c)))"
  by (auto simp: report_def verification_passed split: sum.splits)

lemma classify_no_mismatch:
  "SumMismatch \<notin> set (cm_trace st) \<Longrightarrow> SumMismatch \<notin> set (trace (classify st))"
  using report_no_mismatch
  apply (auto simp: classify_def Let_def split: sum.splits prod.splits option.splits)
  apply (metis fst_conv)+
  done

text \<open>
  C1. From the three counters the capacity misses are \<open>cold_capacity - cold\<close> and the
  conflict misses are \<open>total - cold_capacity\<close>. So for all integers the sum the script
  prints, \<open>cold + capacity + conflict\<close>, is the total, the verification takes its
  passing branch, and neither the report nor any run of \<open>main\<close> prints the warning
  that the sum does not match.
\<close>

theorem classification_sum_equals_total:
  "capacity_misses (miss_breakdown t cc c) = cc - c \<and>
   conflict_misses (miss_breakdown t cc c) = t - cc \<and>
   reported_sum (miss_breakdown t cc c) = t \<and>
   verification (miss_breakdown t cc c) = VerificationPassed \<and>
   SumMismatch \<notin> set (fst (report (miss_breakdown t cc c))) \<and>
   SumMismatch \<notin> set (trace (main_cm i w))"
proof -
  have "SumMismatch \<notin> set (trace (main_cm i w))"
    using loop_cm_no_mismatch[of "\<lparr>cm_results = [], cm_trace = [], cm_raised = None\<rparr>" i w CONFIGS_cm]
    by (auto simp: main_cm_def Let_def classify_no_mismatch split: option.splits)
  then show ?thesis
    using report_no_mismatch[of t cc c]
    by (simp add: verification_passed) (simp add: miss_breakdown_def reported_sum_def)
qed

text \<open>
  C10. With a total of zero the first percentage divides by zero: the classification
  raises ZeroDivisionError after printing the total, before any line of the breakdown.
\<close>

theorem classification_zero_total_raises:
  "report (miss_breakdown 0 0 0) = ([TotalLine 0], Some ZeroDivisionError)"
  by (simp add: report_def miss_breakdown_def true_div_def)

text \<open>Without an exception, the CSV file is written exactly when there are three results.\<close>

lemma csv_needs_three_results:
  "length (results (main_cm i w)) \<noteq> 3 \<Longrightarrow> csv (main_cm i w) = None"
  by (auto simp: main_cm_def classify_def Let_def
      split: option.splits sum.splits prod.splits if_splits)

lemma csv_written_without_exception:
  "length (results (main_cm i w)) = 3 \<Longrightarrow> raised (main_cm i w) = None \<Longrightarrow>
     csv (main_cm i w) \<noteq> None"
  by (auto simp: main_cm_def classify_def Let_def
      split: option.splits sum.splits prod.splits if_splits)

lemma strip_prefix_append: "strip_prefix p (p @ r) = Some r"
  by (induction p) auto

lemma zero_miss_stat:
  "parse_stat_cm (L1D_MISSES @ ''     0     # (Unspecified)'') L1D_MISSES = PyStr ''0''"
  by (simp add: parse_stat_cm_def re_search_def match_here_def strip_prefix_append
      is_space_def strip_def split_first_def L1D_MISSES_def)

lemma extract_zero:
  "extract_l1d_misses zero_miss_world d = (Inr (Some 0), [ReadStats d])"
  by (simp add: extract_l1d_misses_def zero_miss_world_def zero_miss_stat truthy_def to_int_def
      py_int_def int_space_def is_digit_def)

lemma run_zero: "subprocess_run zero_miss_world cmd = (0, [])"
  by (simp add: zero_miss_world_def)

lemma step_cm_zero:
  "step_cm i zero_miss_world (n, s, a, p) st =
     st\<lparr>cm_results := AList.update n
            \<lparr>e_l1d_size = s, e_l1d_assoc = a, e_misses = 0, e_purpose = p\<rparr> (cm_results st),
        cm_trace := cm_trace st @
          [Mkdir (output_dir_cm i (n, s, a, p)), Announce (output_dir_cm i (n, s, a, p)),
           Spawn (cmd_cm i s a (output_dir_cm i (n, s, a, p))), Exited 0, Completed,
           ReadStats (output_dir_cm i (n, s, a, p)), MissesExtracted 0]\<rparr>"
  by (simp add: step_cm_def run_gem5_simulation_cm_def extract_zero run_zero Let_def)

lemma loop_cm_zero:
  "cm_results (loop_cm i zero_miss_world CONFIGS_cm
      \<lparr>cm_results = [], cm_trace = [], cm_raised = None\<rparr>) =
     [(''baseline'', \<lparr>e_l1d_size = ''1kB'', e_l1d_assoc = 2, e_misses = 0,
         e_purpose = ''Total misses (cold + capacity + conflict)''\<rparr>),
      (''no_conflict'', \<lparr>e_l1d_size = ''1kB'', e_l1d_assoc = 8, e_misses = 0,
         e_purpose = ''Cold + capacity misses (no conflict)''\<rparr>),
      (''no_capacity'', \<lparr>e_l1d_size = ''8kB'', e_l1d_assoc = 8, e_misses = 0,
         e_purpose = ''Cold misses only (no capacity, no conflict)''\<rparr>)] \<and>
   cm_raised (loop_cm i zero_miss_world CONFIGS_cm
      \<lparr>cm_results = [], cm_trace = [], cm_raised = None\<rparr>) = None"
  by (simp add: CONFIGS_cm_def step_cm_zero Let_def)

text \<open>
  C6. When all three runs succeed and each report counts zero misses, \<open>main\<close> holds
  three results and still writes no CSV file: the classification raises
  ZeroDivisionError before the file is opened.
\<close>

theorem three_results_without_csv:
  "length (results (main_cm demo_install zero_miss_world)) = 3 \<and>
   csv (main_cm demo_install zero_miss_world) = None \<and>
   raised (main_cm demo_install zero_miss_world) = Some ZeroDivisionError"
  by (simp add: main_cm_def loop_cm_zero classify_def misses_of_def lookup_def Let_def
      miss_breakdown_def report_def true_div_def)

section \<open>Failed runs and the order of runs\<close>

lemma spawned_append: "spawned (xs @ ys) = spawned xs @ spawned ys"
  by (induction xs rule: spawned.induct) auto

lemma run_re_cases:
  "run_gem5_simulation_re i w cf a sz d =
     (if run_failed w (cmd_re i cf a sz d)
      then (False, [Announce d, Spawn (cmd_re i cf a sz d),
                    Exited (fst (subprocess_run w (cmd_re i cf a sz d))),
                    FailedWith (snd (subprocess_run w (cmd_re i cf a sz d)))])
      else (True, [Announce d, Spawn (cmd_re i cf a sz d), Exited 0, Completed]))"
  by (auto simp: run_gem5_simulation_re_def run_failed_def Let_def split: prod.splits)

lemma step_re_failed:
  assumes "run_failed w (invocation_re i c)"
  shows "step_re fl i w c st =
           st\<lparr>re_trace := re_trace st @ failure_events w (output_dir_re i c) (invocation_re i c)\<rparr>"
  using assms
  by (cases c)
     (simp add: step_re_def invocation_re_def run_re_cases failure_events_def Let_def)

lemma step_re_spawned:
  "spawned (re_trace (step_re fl i w c st)) = spawned (re_trace st) @ [invocation_re i c]"
  by (cases c)
     (auto simp: step_re_def invocation_re_def run_re_cases extract_metrics_def Let_def
        spawned_append split: option.splits)

lemma loop_re_spawned:
  "spawned (re_trace (loop_re fl i w cs st)) = spawned (re_trace st) @ map (invocation_re i) cs"
  by (induction cs arbitrary: st) (simp_all add: step_re_spawned)

lemma step_re_process:
  "filter is_process_event (re_trace (step_re fl i w c st)) =
     filter is_process_event (re_trace st) @
       [Spawn (invocation_re i c), Exited (fst (subprocess_run w (invocation_re i c)))]"
  by (cases c)
     (auto simp: step_re_def invocation_re_def run_re_cases extract_metrics_def Let_def
        is_process_event_def run_failed_def split: option.splits)

lemma loop_re_process:
  "filter is_process_event (re_trace (loop_re fl i w cs st)) =
     filter is_process_event (re_trace st) @
       concat (map (\<lambda>c. [Spawn (invocation_re i c),
                          Exited (fst (subprocess_run w (invocation_re i c)))]) cs)"
  by (induction cs arbitrary: st) (simp_all add: step_re_process)

lemma step_re_results:
  "map config_of_row (re_results (step_re fl i w c st)) =
     map config_of_row (re_results st) @ (if yields_row i w c then [c] else [])"
  by (cases c)
     (auto simp: step_re_def invocation_re_def run_re_cases extract_metrics_def Let_def
        yields_row_def config_of_row_def split: option.splits)

lemma loop_re_results:
  "map config_of_row (re_results (loop_re fl i w cs st)) =
     map config_of_row (re_results st) @ filter (yields_row i w) cs"
  by (induction cs arbitrary: st) (simp_all add: step_re_results)

lemma main_re_results:
  "results (main_re fl i w) =
     re_results (loop_re fl i w CONFIGS_re \<lparr>re_results = [], re_trace = []\<rparr>)"
  by (simp add: main_re_def Let_def)

lemma main_re_spawned: "spawned (trace (main_re fl i w)) = map (invocation_re i) CONFIGS_re"
  by (simp add: main_re_def Let_def spawned_append loop_re_spawned)

lemma main_re_process:
  "filter is_process_event (trace (main_re fl i w)) =
     concat (map (\<lambda>c. [Spawn (invocation_re i c),
                        Exited (fst (subprocess_run w (invocation_re i c)))]) CONFIGS_re)"
  by (simp add: main_re_def Let_def loop_re_process is_process_event_def)

lemma main_re_rows:
  "map config_of_row (results (main_re fl i w)) = filter (yields_row i w) CONFIGS_re"
  by (simp add: main_re_results loop_re_results)

lemma main_re_csv:
  "csv (main_re fl i w) =
     (if results (main_re fl i w) = [] then None
      else Some (fieldnames # map row_cells (results (main_re fl i w))))"
  by (simp add: main_re_def Let_def)

lemma distinct_invocations_re: "distinct (map (invocation_re i) CONFIGS_re)"
  by (simp add: CONFIGS_re_def invocation_re_def cmd_re_def)

lemma run_cm_cases:
  "run_gem5_simulation_cm i w n sz a d =
     (if run_failed w (cmd_cm i sz a d)
      then (False, [Announce d, Spawn (cmd_cm i sz a d),
                    Exited (fst (subprocess_run w (cmd_cm i sz a d))),
                    FailedWith (snd (subprocess_run w (cmd_cm i sz a d)))])
      else (True, [Announce d, Spawn (cmd_cm i sz a d), Exited 0, Completed]))"
  by (auto simp: run_gem5_simulation_cm_def run_failed_def Let_def split: prod.splits)

lemma step_cm_failed:
  assumes "run_failed w (invocation_cm i c)"
  shows "step_cm i w c st =
           st\<lparr>cm_trace := cm_trace st @ failure_events w (output_dir_cm i c) (invocation_cm i c)\<rparr>"
  using assms
  by (cases c)
     (simp add: step_cm_def invocation_cm_def run_cm_cases failure_events_def Let_def)

lemma keys_update: "fst ` set (AList.update k v al) = insert k (fst ` set al)"
proof -
  have "set (map fst (AList.update k v al)) = insert k (set (map fst al))"
    by (auto simp: update_keys)
  then show ?thesis by simp
qed

lemma step_cm_keys:
  "fst ` set (cm_results (step_cm i w c st)) \<subseteq>
     fst ` set (cm_results st) \<union> (if run_failed w (invocation_cm i c) then {} else {fst c})"
  by (cases c)
     (auto simp: step_cm_def invocation_cm_def run_cm_cases Let_def keys_update
        split: prod.splits sum.splits option.splits)

lemma loop_cm_keys:
  "fst ` set (cm_results (loop_cm i w cs st)) \<subseteq>
     fst ` set (cm_results st) \<union> fst ` {c \<in> set cs. \<not> run_failed w (invocation_cm i c)}"
proof (induction cs arbitrary: st)
  case Nil
  then show ?case by simp
next
  case (Cons c cs)
  have s: "fst ` set (cm_results (step_cm i w c st)) \<subseteq>
     fst ` set (cm_results st) \<union> fst ` {c' \<in> set (c # cs). \<not> run_failed w (invocation_cm i c')}"
    using step_cm_keys[of i w c st] by (auto split: if_splits)
  show ?case
  proof (cases "cm_raised (step_cm i w c st) = None")
    case True
    then have e: "loop_cm i w (c # cs) st = loop_cm i w cs (step_cm i w c st)"
      by (simp add: Let_def)
    have m: "fst ` {c' \<in> set cs. \<not> run_failed w (invocation_cm i c')} \<subseteq>
        fst ` {c' \<in> set (c # cs). \<not> run_failed w (invocation_cm i c')}" by auto
    have "fst ` set (cm_results (loop_cm i w cs (step_cm i w c st))) \<subseteq>
        fst ` set (cm_results st) \<union>
          fst ` {c' \<in> set (c # cs). \<not> run_failed w (invocation_cm i c')}"
      using Cons.IH[of "step_cm i w c st"] s m by (meson Un_least Un_upper2 subset_trans)
    then show ?thesis unfolding e .
  next
    case False
    then have "loop_cm i w (c # cs) st = step_cm i w c st" by (auto simp: Let_def)
    with s show ?thesis by simp
  qed
qed

lemma main_cm_results:
  "results (main_cm i w) =
     cm_results (loop_cm i w CONFIGS_cm \<lparr>cm_results = [], cm_trace = [], cm_raised = None\<rparr>)"
  by (auto simp: main_cm_def classify_def Let_def split: option.splits sum.splits prod.splits)

lemma main_cm_keys:
  "fst ` set (results (main_cm i w)) \<subseteq>
     fst ` {c \<in> set CONFIGS_cm. \<not> run_failed w (invocation_cm i c)}"
  using loop_cm_keys[of i w CONFIGS_cm "\<lparr>cm_results = [], cm_trace = [], cm_raised = None\<rparr>"]
  by (simp add: main_cm_results)

lemma failed_cm_no_entry:
  assumes "c \<in> set CONFIGS_cm" "run_failed w (invocation_cm i c)"
  shows "fst c \<notin> fst ` set (results (main_cm i w))"
proof
  assume "fst c \<in> fst ` set (results (main_cm i w))"
  with main_cm_keys[of i w] obtain c' where c': "c' \<in> set CONFIGS_cm"
    "\<not> run_failed w (invocation_cm i c')" "fst c' = fst c"
    by auto
  have "distinct (map fst CONFIGS_cm)" by (simp add: CONFIGS_cm_def)
  with c'(1,3) assms(1) have "c' = c" by (meson eq_key_imp_eq_value distinct_map inj_on_eq_iff)
  with c'(2) assms(2) show False by simp
qed

text \<open>
  C5. When the child of a configuration exits with a nonzero status, the pass of the
  loop starts it once, prints the failure with its standard error and the notice that
  extraction is skipped, reads no statistics, adds no result and raises nothing; the
  loop goes on with the remaining configurations. This holds in both drivers, and so
  no failed configuration has an entry in the results \<open>main\<close> ends with.
\<close>

theorem failed_run_is_skipped:
  "(run_failed w (invocation_re i c) \<longrightarrow>
      loop_re fl i w (c # cs) st =
        loop_re fl i w cs
          (st\<lparr>re_trace := re_trace st @
                 failure_events w (output_dir_re i c) (invocation_re i c)\<rparr>)) \<and>
   (run_failed w (invocation_cm i c') \<and> cm_raised st' = None \<longrightarrow>
      loop_cm i w (c' # cs') st' =
        loop_cm i w cs'
          (st'\<lparr>cm_trace := cm_trace st' @
                  failure_events w (output_dir_cm i c') (invocation_cm i c')\<rparr>)) \<and>
   (\<forall>c \<in> set CONFIGS_re. run_failed w (invocation_re i c) \<longrightarrow>
      c \<notin> set (map config_of_row (results (main_re fl i w)))) \<and>
   (\<forall>c \<in> set CONFIGS_cm. run_failed w (invocation_cm i c) \<longrightarrow>
      fst c \<notin> fst ` set (results (main_cm i w)))"
proof (intro conjI impI ballI)
  assume "run_failed w (invocation_re i c)"
  then show "loop_re fl i w (c # cs) st =
        loop_re fl i w cs
          (st\<lparr>re_trace := re_trace st @
                 failure_events w (output_dir_re i c) (invocation_re i c)\<rparr>)"
    by (simp add: step_re_failed)
next
  assume "run_failed w (invocation_cm i c') \<and> cm_raised st' = None"
  then show "loop_cm i w (c' # cs') st' =
        loop_cm i w cs'
          (st'\<lparr>cm_trace := cm_trace st' @
                  failure_events w (output_dir_cm i c') (invocation_cm i c')\<rparr>)"
    by (simp add: step_cm_failed Let_def)
next
  fix c assume "c \<in> set CONFIGS_re" "run_failed w (invocation_re i c)"
  then show "c \<notin> set (map config_of_row (results (main_re fl i w)))"
    by (simp add: main_re_rows yields_row_def)
next
  fix c assume "c \<in> set CONFIGS_cm" "run_failed w (invocation_cm i c)"
  then show "fst c \<notin> fst ` set (results (main_cm i w))" by (rule failed_cm_no_entry)
qed

text \<open>In \<open>flaky_world\<close> the 8kB configurations of both drivers fail.\<close>

theorem failed_run_is_skipped_witness:
  "run_failed flaky_world (invocation_re demo_install (''1GHz'', 2, ''8kB'')) \<and>
   loop_re exact_floats demo_install flaky_world [(''1GHz'', 2, ''8kB'')]
       \<lparr>re_results = [], re_trace = []\<rparr> =
     \<lparr>re_results = [],
      re_trace = failure_events flaky_world (output_dir_re demo_install (''1GHz'', 2, ''8kB''))
                   (invocation_re demo_install (''1GHz'', 2, ''8kB''))\<rparr> \<and>
   (''1GHz'', 2, ''8kB'') \<in> set CONFIGS_re \<and>
   (''1GHz'', 2, ''8kB'') \<notin>
     set (map config_of_row (results (main_re exact_floats demo_install flaky_world))) \<and>
   run_failed flaky_world
     (invocation_cm demo_install
        (''no_capacity'', ''8kB'', 8, ''Cold misses only (no capacity, no conflict)'')) \<and>
   loop_cm demo_install flaky_world
       [(''no_capacity'', ''8kB'', 8, ''Cold misses only (no capacity, no conflict)'')]
       \<lparr>cm_results = [], cm_trace = [], cm_raised = None\<rparr> =
     \<lparr>cm_results = [],
      cm_trace = failure_events flaky_world
          (output_dir_cm demo_install
             (''no_capacity'', ''8kB'', 8, ''Cold misses only (no capacity, no conflict)''))
          (invocation_cm demo_install
             (''no_capacity'', ''8kB'', 8, ''Cold misses only (no capacity, no conflict)'')),
      cm_raised = None\<rparr> \<and>
   (''no_capacity'', ''8kB'', 8, ''Cold misses only (no capacity, no conflict)'')
     \<in> set CONFIGS_cm \<and>
   ''no_capacity'' \<notin> fst ` set (results (main_cm demo_install flaky_world))"
proof -
  let ?c = "(''1GHz'', 2::int, ''8kB'')"
  let ?d = "(''no_capacity'', ''8kB'', 8::int, ''Cold misses only (no capacity, no conflict)'')"
  let ?s = "\<lparr>re_results = [], re_trace = []\<rparr>"
  let ?t = "\<lparr>cm_results = [], cm_trace = [], cm_raised = None\<rparr>"
  note t = failed_run_is_skipped[where w = flaky_world and i = demo_install
      and fl = exact_floats and c = ?c and cs = "[]" and st = ?s
      and c' = ?d and cs' = "[]" and st' = ?t]
  have a: "run_failed flaky_world (invocation_re demo_install ?c)"
    by (simp add: run_failed_def flaky_world_def invocation_re_def cmd_re_def)
  have b: "run_failed flaky_world (invocation_cm demo_install ?d)"
    by (simp add: run_failed_def flaky_world_def invocation_cm_def cmd_cm_def)
  have c: "?c \<in> set CONFIGS_re" by (simp add: CONFIGS_re_def)
  have d: "?d \<in> set CONFIGS_cm" by (simp add: CONFIGS_cm_def)
  from t a have 1: "loop_re exact_floats demo_install flaky_world [?c] ?s =
     \<lparr>re_results = [], re_trace = failure_events flaky_world (output_dir_re demo_install ?c)
                   (invocation_re demo_install ?c)\<rparr>" by simp
  from t b have 2: "loop_cm demo_install flaky_world [?d] ?t =
     \<lparr>cm_results = [], cm_trace = failure_events flaky_world (output_dir_cm demo_install ?d)
                   (invocation_cm demo_install ?d), cm_raised = None\<rparr>" by simp
  from t a c have 3:
    "?c \<notin> set (map config_of_row (results (main_re exact_floats demo_install flaky_world)))"
    by blast
  from t b d have 4: "fst ?d \<notin> fst ` set (results (main_cm demo_install flaky_world))"
    by blast
  show ?thesis using a b c d 1 2 3 4 by simp
qed

text \<open>
  C8. \<open>main\<close> of run\_experiments.py starts the simulator once for each configuration
  of \<open>CONFIGS\<close>, in the order of the list, whatever the runs do: the command lines
  started are those of the configurations, they are pairwise different, and each
  child has exited before the next is started. The results, and the rows of
  experiment\_results.csv after its header, are those of the configurations whose run
  succeeded and left a statistics file, in the order of \<open>CONFIGS\<close>; with no result no
  file is written.
\<close>

theorem simulator_runs_once_per_config:
  "spawned (trace (main_re fl i w)) = map (invocation_re i) CONFIGS_re \<and>
   distinct (map (invocation_re i) CONFIGS_re) \<and>
   filter is_process_event (trace (main_re fl i w)) =
     concat (map (\<lambda>c. [Spawn (invocation_re i c),
                        Exited (fst (subprocess_run w (invocation_re i c)))]) CONFIGS_re) \<and>
   map config_of_row (results (main_re fl i w)) = filter (yields_row i w) CONFIGS_re \<and>
   csv (main_re fl i w) =
     (if results (main_re fl i w) = [] then None
      else Some (fieldnames # map row_cells (results (main_re fl i w))))"
  using main_re_spawned main_re_process main_re_rows main_re_csv distinct_invocations_re
  by blast

section \<open>The command line of assignment3.py\<close>

text \<open>
  C2. With \<open>--clock.freq 0.8GHz\<close> on an accepted command line the namespace holds
  \<open>0.8GHz\<close> under the attribute \<open>clock.freq\<close>, and the clock of the board on an x86
  binary is \<open>1GHz\<close>: the script never reads the option.
\<close>

theorem clock_option_not_used:
  "(case parse_args [(''--prog'', ''queens''), (''--clock.freq'', ''0.8GHz'')] of
      Inl e \<Rightarrow> False
    | Inr args \<Rightarrow> getattr args ''clock.freq'' = Inr (PyStr ''0.8GHz'')) \<and>
   clk_freq X86 = ''1GHz''"
  by code_simp

text \<open>The attributes of the namespace of an accepted command line are those the parser
  declares.\<close>

lemma defaults_dom:
  "defaults as = Inr ns \<Longrightarrow> dom ns = dest ` option_string ` set as"
proof (induction as arbitrary: ns)
  case Nil
  then show ?case by simp
next
  case (Cons a as)
  from Cons.prems obtain ns1 v where d: "defaults as = Inr ns1"
    and n: "ns = ns1(dest (option_string a) \<mapsto> v)"
    by (auto split: sum.splits pyval.splits)
  have "dom ns = insert (dest (option_string a)) (dom ns1)" unfolding n by simp
  then show ?case unfolding Cons.IH[OF d] by simp
qed

lemma find_argument_Some: "find_argument as opt = Some a \<Longrightarrow> a \<in> set as"
  by (auto simp: find_argument_def find_Some_iff)

lemma read_options_dom:
  "read_options as argv ns = Inr ns' \<Longrightarrow> dom ns' \<subseteq> dom ns \<union> dest ` option_string ` set as"
proof (induction as argv ns arbitrary: ns' rule: read_options.induct)
  case (1 args ns)
  then show ?case by simp
next
  case (2 args opt val rest ns)
  from "2.prems" obtain a v where a: "find_argument args opt = Some a"
    and v: "convert (arg_type a) val = Inr v"
    and r: "read_options args rest (ns(dest (option_string a) \<mapsto> v)) = Inr ns'"
    by (auto split: option.splits sum.splits if_splits)
  have "dom ns' \<subseteq> dom (ns(dest (option_string a) \<mapsto> v)) \<union> dest ` option_string ` set args"
  proof (cases "arg_choices a")
    case None
    show ?thesis by (rule "2.IH"(1)[OF a v None r])
  next
    case (Some cs)
    with "2.prems" a v have m: "v \<in> set (map PyStr cs)" by (auto split: if_splits)
    show ?thesis by (rule "2.IH"(2)[OF a v Some m r])
  qed
  with find_argument_Some[OF a] show ?case by auto
qed

lemma parse_args_dom:
  assumes "parse_args argv = Inr args"
  shows "dom args \<subseteq> dest ` option_string ` set parser"
proof -
  from assms obtain ns0 where d: "defaults parser = Inr ns0"
    and r: "read_options parser argv ns0 = Inr args"
    by (auto simp: parse_args_def split: sum.splits if_splits)
  from defaults_dom[OF d] read_options_dom[OF r] show ?thesis by auto
qed

text \<open>So on every accepted command line the read of \<open>args.l1d_size\<close> raises, and the
  script never gets to build its board.\<close>

lemma accepted_command_line_has_no_l1d_size:
  assumes "parse_args argv = Inr args"
  shows "make_cache_hierarchy args = Inl AttributeError"
proof -
  have "''l1d_size'' \<notin> dest ` option_string ` set parser"
    by (simp add: parser_def dest_def)
  with parse_args_dom[OF assms] have "args ''l1d_size'' = None" by blast
  then show ?thesis by (simp add: make_cache_hierarchy_def getattr_def)
qed

lemma assignment3_never_builds_board: "assignment3 g isa argv \<noteq> Inr b"
  by (auto simp: assignment3_def accepted_command_line_has_no_l1d_size
      split: option.splits sum.splits)

text \<open>
  C3. On the accepted command line \<open>--prog queens\<close> the construction of the cache
  hierarchy raises AttributeError at the read of \<open>args.l1d_size\<close>, and with it the
  script: the parser stored the value under \<open>l1d.size\<close>.
\<close>

theorem l1d_size_read_raises:
  "(case parse_args [(''--prog'', ''queens'')] of
      Inl e \<Rightarrow> False
    | Inr args \<Rightarrow>
        getattr args ''l1d.size'' = Inr (PyStr ''64KiB'') \<and>
        getattr args ''l1d_size'' = Inl AttributeError \<and>
        make_cache_hierarchy args = Inl AttributeError) \<and>
   assignment3 (Some ''/opt/gem5'') X86 [(''--prog'', ''queens'')] = Inl AttributeError"
  by code_simp

section \<open>The guards of \<open>calc_miss_rate\<close>\<close>

text \<open>
  Whatever the float operations are, \<open>calc_miss_rate\<close> formats the quotient exactly
  when the accesses are not the text \<open>N/A\<close>, convert to a float above zero, and the
  misses convert too; in every other case it returns \<open>N/A\<close>.
\<close>

lemma calc_miss_rate_guards:
  "calc_miss_rate fl misses accesses =
     (if accesses \<noteq> PyStr ''N/A'' \<and> (\<exists>a. py_float fl accesses = Inr a \<and> gt_zero fl a) \<and>
         (\<exists>m. py_float fl misses = Inr m)
      then fmt6 fl (fdiv fl (projr (py_float fl misses)) (projr (py_float fl accesses)))
      else ''N/A'')"
  by (auto simp: calc_miss_rate_def split: sum.splits)

end
